theory Spec2Isabelle
  imports Main "HOL-Library.Word"
begin

section \<open>The environment of setup.py\<close>

text \<open>
  The script acts on the process environment: the current working directory, the files
  that exist (absolute POSIX paths), the bytes stored at each path, what has been written
  to standard output, and the external processes launched so far (their argument
  vectors). Creating or deleting a file changes \<open>files\<close>; writing to a file changes
  \<open>contents\<close> at its path, and \<open>contents\<close> at a path outside \<open>files\<close> is never
  looked at. Standard output is a stream of its own, not one of the files.
\<close>

record world =
  cwd :: string
  files :: "string set"
  contents :: "string \<Rightarrow> string"
  stdout :: string
  spawned :: "string list list"

text \<open>
  \<^verbatim>\<open>os.path.join(a, b)\<close> on POSIX: an absolute second component replaces the first;
  otherwise the components are put together with exactly one separator between them.
\<close>

definition os_path_join :: "string \<Rightarrow> string \<Rightarrow> string" where
  "os_path_join a b =
     (if take 1 b = ''/'' then b
      else if a = [] \<or> last a = CHR ''/'' then a @ b
      else a @ ''/'' @ b)"

text \<open>
  \<^verbatim>\<open>os.path.exists(path)\<close>: a relative path is resolved against the current working
  directory of the process. \<open>files\<close> holds the paths the process can stat, so a broken
  symbolic link or an unreadable directory counts as absent, as it does for Python.
\<close>

definition os_path_exists :: "world \<Rightarrow> string \<Rightarrow> bool" where
  "os_path_exists w path \<longleftrightarrow> os_path_join (cwd w) path \<in> files w"

text \<open>
  \<^verbatim>\<open>print(s)\<close> writes the text and a newline to standard output. Both messages of
  the script are ASCII, and the write is taken to succeed.
\<close>

definition print_py :: "string \<Rightarrow> world \<Rightarrow> world" where
  "print_py s w = w\<lparr>stdout := stdout w @ s @ [CHR 0x0A]\<rparr>"

section \<open>CustomBuildPy\<close>

text \<open>The two local variables of \<^verbatim>\<open>CustomBuildPy.run\<close>.\<close>

definition package_dir :: string where
  "package_dir = ''intel_seed''"

definition library_path :: string where
  "library_path = os_path_join package_dir ''librdseed.so''"

text \<open>
  \<^verbatim>\<open>CustomBuildPy.run\<close>. The inherited \<^verbatim>\<open>build_py.run\<close> belongs to setuptools and is
  a parameter: it takes the environment to a new one, or raises (\<open>Inl\<close>), and an
  exception it raises leaves \<^verbatim>\<open>run\<close> at once. The f-strings are written out as
  concatenations.
\<close>

definition run :: "(world \<Rightarrow> 'e + world) \<Rightarrow> world \<Rightarrow> 'e + world" where
  "run super_run w =
     (case super_run w of
        Inl e \<Rightarrow> Inl e
      | Inr w' \<Rightarrow>
          if \<not> os_path_exists w' library_path
          then Inr (print_py (''Warning: '' @ library_path @
                      '' not found. Make sure to compile it manually.'') w')
          else Inr (print_py (''Found compiled library at '' @ library_path) w'))"

section \<open>The setup call\<close>

text \<open>The command classes a \<^verbatim>\<open>cmdclass\<close> entry of this script can name.\<close>

datatype command_class = CustomBuildPy

text \<open>The keyword arguments of \<^verbatim>\<open>setup(...)\<close>; the dictionaries keep their order.\<close>

record setup_kwargs =
  name :: string
  version :: string
  description :: string
  author :: string
  author_email :: string
  packages :: "string list"
  package_data :: "(string \<times> string list) list"
  include_package_data :: bool
  cmdclass :: "(string \<times> command_class) list"
  classifiers :: "string list"
  python_requires :: string
  install_requires :: "string list"
  extras_require :: "(string \<times> string list) list"

text \<open>
  The arguments the script passes. \<^verbatim>\<open>find_packages()\<close> scans the source tree when the
  script runs, so its result is a parameter.
\<close>

definition setup_call :: "string list \<Rightarrow> setup_kwargs" where
  "setup_call found_packages =
     \<lparr>name = ''intel-seed'',
      version = ''1.0.0'',
      description = ''Python module for Intel RDSEED hardware random number generation'',
      author = ''Thiago Jung'',
      author_email = ''thiagojm1984@hotmail.com'',
      packages = found_packages,
      package_data = [(''intel_seed'', [''librdseed.so''])],
      include_package_data = True,
      cmdclass = [(''build_py'', CustomBuildPy)],
      classifiers =
        [''Development Status :: 4 - Beta'',
         ''Intended Audience :: Developers'',
         ''License :: OSI Approved :: MIT License'',
         ''Programming Language :: Python :: 3'',
         ''Programming Language :: Python :: 3.8'',
         ''Programming Language :: Python :: 3.9'',
         ''Programming Language :: Python :: 3.10'',
         ''Programming Language :: Python :: 3.11'',
         ''Programming Language :: Python :: 3.12'',
         ''Topic :: Security :: Cryptography'',
         ''Topic :: Software Development :: Libraries :: Python Modules''],
      python_requires = ''>=3.8'',
      install_requires = [],
      extras_require = [(''dev'', [''pytest'', ''black'', ''flake8''])]\<rparr>"

section \<open>Two source trees\<close>

text \<open>
  A checkout in which the library has not been compiled, and the same checkout after
  \<^verbatim>\<open>librdseed.so\<close> has been put into the package directory.
\<close>

definition tree_without_library :: world where
  "tree_without_library =
     \<lparr>cwd = ''/home/dev/IntelSeed'',
      files = {''/home/dev/IntelSeed/setup.py'', ''/home/dev/IntelSeed/intel_seed/__init__.py''},
      contents = (\<lambda>p. []),
      stdout = [],
      spawned = []\<rparr>"

definition tree_with_library :: world where
  "tree_with_library =
     \<lparr>cwd = ''/home/dev/IntelSeed'',
      files = {''/home/dev/IntelSeed/setup.py'', ''/home/dev/IntelSeed/intel_seed/__init__.py'',
               ''/home/dev/IntelSeed/intel_seed/librdseed.so''},
      contents = (\<lambda>p. [])(''/home/dev/IntelSeed/intel_seed/librdseed.so'' := [CHR 0x7F] @ ''ELF''),
      stdout = [],
      spawned = []\<rparr>"

text \<open>An inherited \<^verbatim>\<open>build_py.run\<close> that returns without touching the environment.\<close>

definition super_run_skip :: "world \<Rightarrow> unit + world" where
  "super_run_skip w = Inr w"

text \<open>
  An inherited \<^verbatim>\<open>build_py.run\<close> that copies the package module into the build
  directory, as a build does, before it returns.
\<close>

definition super_run_copy :: "world \<Rightarrow> unit + world" where
  "super_run_copy w =
     Inr (w\<lparr>files := insert (os_path_join (cwd w) ''build/lib/intel_seed/__init__.py'') (files w),
            contents := (contents w)
              (os_path_join (cwd w) ''build/lib/intel_seed/__init__.py'' :=
                 contents w (os_path_join (cwd w) ''intel_seed/__init__.py''))\<rparr>)"

section \<open>The RDSEED acquisition layer\<close>

text \<open>
  Modelled from the spec: the native library \<^verbatim>\<open>librdseed.so\<close> that the package ships
  (the RdseedSource component) is not among the sources. A RandomWord is "an unsigned
  integer of fixed bit-width (16, 32, or 64 bits), the direct output of one successful
  hardware draw".
\<close>

datatype RandomWord = Word16 "16 word" | Word32 "32 word" | Word64 "64 word"

text \<open>
  Modelled from the spec: the width of a RandomWord in bits and the integer it hands to
  the caller, the two quantities the properties of the missing library speak about. The
  word is read as "an unsigned integer": a set top bit counts as a power of two, not as a
  sign.
\<close>

fun bit_width :: "RandomWord \<Rightarrow> nat" where
  "bit_width (Word16 v) = 16"
| "bit_width (Word32 v) = 32"
| "bit_width (Word64 v) = 64"

fun word_value :: "RandomWord \<Rightarrow> int" where
  "word_value (Word16 v) = uint v"
| "word_value (Word32 v) = uint v"
| "word_value (Word64 v) = uint v"

text \<open>
  Modelled from the spec: the AcquisitionResult of the missing library, "a tagged outcome:
  Success(RandomWord) or Exhausted (retry budget exceeded)".
\<close>

datatype AcquisitionResult = Success RandomWord | Exhausted

text \<open>
  Modelled from the spec: the hardware instruction the missing library wraps. One
  invocation consumes the hardware state and reports a binary status flag together with
  the bits it delivered; the hardware state is "process-external", so it is a type
  parameter, and a test's mock is one such function.
\<close>

type_synonym ('hw, 'a) instruction = "'hw \<Rightarrow> (bool \<times> 'a) \<times> 'hw"

text \<open>
  Modelled from the spec: the outcomes of the first \<open>k\<close> invocations of the instruction
  from a given hardware state, in order. This is what a mock of the missing instruction
  is programmed with.
\<close>

fun issue :: "nat \<Rightarrow> ('hw, 'a) instruction \<Rightarrow> 'hw \<Rightarrow> (bool \<times> 'a) list" where
  "issue 0 instr hw = []"
| "issue (Suc k) instr hw = (case instr hw of (out, hw') \<Rightarrow> out # issue k instr hw')"

text \<open>
  Modelled from the spec: the hardware state after the first \<open>k\<close> invocations of the
  instruction from a given state. With a mock whose state is its call counter, the state
  a draw leaves behind tells how many times the draw invoked the instruction.
\<close>

fun hw_after :: "nat \<Rightarrow> ('hw, 'a) instruction \<Rightarrow> 'hw \<Rightarrow> 'hw" where
  "hw_after 0 instr hw = hw"
| "hw_after (Suc k) instr hw = hw_after k instr (snd (instr hw))"

text \<open>
  Modelled from the spec: the retry loop of the missing draw operations, each of which
  "issues the hardware instruction at the given width, checks the success flag, and
  retries up to a fixed bound". The bound counts attempts and is a parameter (the spec
  leaves its value open). The loop returns the word of the first successful attempt, if
  any, the number of attempts it issued, and the hardware state it leaves.
\<close>

fun retry :: "nat \<Rightarrow> ('hw, 'a) instruction \<Rightarrow> 'hw \<Rightarrow> 'a option \<times> nat \<times> 'hw" where
  "retry 0 instr hw = (None, 0, hw)"
| "retry (Suc n) instr hw =
     (case instr hw of
        ((ok, v), hw') \<Rightarrow>
          if ok then (Some v, 1, hw')
          else (case retry n instr hw' of (r, k, hw'') \<Rightarrow> (r, Suc k, hw'')))"

text \<open>
  Modelled from the spec: the three draw operations of the missing RdseedSource,
  \<^verbatim>\<open>draw16\<close>, \<^verbatim>\<open>draw32\<close> and \<^verbatim>\<open>draw64\<close>, each the retry loop at its width with the
  outcome tagged as an AcquisitionResult. Beside the result they return the number of
  attempts issued and the hardware state left behind.
\<close>

definition draw16 ::
  "nat \<Rightarrow> ('hw, 16 word) instruction \<Rightarrow> 'hw \<Rightarrow> AcquisitionResult \<times> nat \<times> 'hw" where
  "draw16 bound rdseed16 hw =
     (case retry bound rdseed16 hw of
        (None, k, hw') \<Rightarrow> (Exhausted, k, hw')
      | (Some v, k, hw') \<Rightarrow> (Success (Word16 v), k, hw'))"

definition draw32 ::
  "nat \<Rightarrow> ('hw, 32 word) instruction \<Rightarrow> 'hw \<Rightarrow> AcquisitionResult \<times> nat \<times> 'hw" where
  "draw32 bound rdseed32 hw =
     (case retry bound rdseed32 hw of
        (None, k, hw') \<Rightarrow> (Exhausted, k, hw')
      | (Some v, k, hw') \<Rightarrow> (Success (Word32 v), k, hw'))"

definition draw64 ::
  "nat \<Rightarrow> ('hw, 64 word) instruction \<Rightarrow> 'hw \<Rightarrow> AcquisitionResult \<times> nat \<times> 'hw" where
  "draw64 bound rdseed64 hw =
     (case retry bound rdseed64 hw of
        (None, k, hw') \<Rightarrow> (Exhausted, k, hw')
      | (Some v, k, hw') \<Rightarrow> (Success (Word64 v), k, hw'))"

text \<open>
  Modelled from the spec: the mocks of its two concrete scenarios, with a call counter as
  the hardware state: an instruction that always reports failure, and one that reports
  success from its third call on, delivering the call number as the word.
\<close>

definition always_fails :: "(nat, 'a::zero) instruction" where
  "always_fails c = ((False, 0), Suc c)"

definition succeeds_on_third :: "(nat, 'a::len word) instruction" where
  "succeeds_on_third c = ((2 \<le> c, of_nat (Suc c)), Suc c)"

text \<open>
  Modelled from the spec: a mock that reports success at every call and delivers the word
  with every bit set, the word on which a signed reading and an unsigned one differ most.
\<close>

definition delivers_all_ones :: "(nat, 'a::len word) instruction" where
  "delivers_all_ones c = ((True, - 1), Suc c)"

section \<open>Properties of the build step\<close>

lemma library_path_eq: "library_path = ''intel_seed/librdseed.so''"
  by (simp add: library_path_def package_dir_def os_path_join_def)

lemma run_Inl: "super_run w = Inl e \<Longrightarrow> run super_run w = Inl e"
  by (simp add: run_def)

lemma run_Inr:
  "super_run w = Inr w' \<Longrightarrow>
   run super_run w =
     Inr (w'\<lparr>stdout := stdout w' @
            (if os_path_exists w' ''intel_seed/librdseed.so''
             then ''Found compiled library at intel_seed/librdseed.so''
             else ''Warning: intel_seed/librdseed.so not found. Make sure to compile it manually.'')
            @ [CHR 0x0A]\<rparr>)"
  by (simp add: run_def print_py_def library_path_eq)

text \<open>
  C1: the build step only verifies the compiled artifact. Once the inherited
  \<^verbatim>\<open>build_py.run\<close> has returned, \<^verbatim>\<open>run\<close> looks for the relative path
  \<^verbatim>\<open>intel_seed/librdseed.so\<close> and prints one of two messages accordingly; whatever the
  files are, it launches no process and changes nothing but standard output.
\<close>

theorem run_only_verifies:
  assumes "super_run w = Inr w'"
  shows "library_path = ''intel_seed/librdseed.so'' \<and>
         run super_run w =
           Inr (w'\<lparr>stdout := stdout w' @
                  (if os_path_exists w' ''intel_seed/librdseed.so''
                   then ''Found compiled library at intel_seed/librdseed.so''
                   else ''Warning: intel_seed/librdseed.so not found. Make sure to compile it manually.'')
                  @ [CHR 0x0A]\<rparr>) \<and>
         (\<forall>w2. run super_run w = Inr w2 \<longrightarrow>
                spawned w2 = spawned w' \<and> files w2 = files w' \<and> cwd w2 = cwd w')"
proof (intro conjI)
  show "library_path = ''intel_seed/librdseed.so''"
    by (rule library_path_eq)
  show r: "run super_run w =
           Inr (w'\<lparr>stdout := stdout w' @
                  (if os_path_exists w' ''intel_seed/librdseed.so''
                   then ''Found compiled library at intel_seed/librdseed.so''
                   else ''Warning: intel_seed/librdseed.so not found. Make sure to compile it manually.'')
                  @ [CHR 0x0A]\<rparr>)"
    using assms by (rule run_Inr)
  show "\<forall>w2. run super_run w = Inr w2 \<longrightarrow>
                spawned w2 = spawned w' \<and> files w2 = files w' \<and> cwd w2 = cwd w'"
    unfolding r by auto
qed


theorem run_only_verifies_witness:
  "super_run_skip tree_with_library = Inr tree_with_library \<and>
   run super_run_skip tree_with_library =
     Inr (tree_with_library\<lparr>stdout :=
            ''Found compiled library at intel_seed/librdseed.so'' @ [CHR 0x0A]\<rparr>) \<and>
   run super_run_skip tree_without_library =
     Inr (tree_without_library\<lparr>stdout :=
            ''Warning: intel_seed/librdseed.so not found. Make sure to compile it manually.''
            @ [CHR 0x0A]\<rparr>)"
proof -
  have a: "super_run_skip tree_with_library = Inr tree_with_library"
    and b: "super_run_skip tree_without_library = Inr tree_without_library"
    by (simp_all add: super_run_skip_def)
  have p: "os_path_exists tree_with_library ''intel_seed/librdseed.so''"
    by (simp add: os_path_exists_def os_path_join_def tree_with_library_def)
  have q: "\<not> os_path_exists tree_without_library ''intel_seed/librdseed.so''"
    by (simp add: os_path_exists_def os_path_join_def tree_without_library_def)
  have s: "stdout tree_with_library = []" "stdout tree_without_library = []"
    by (simp_all add: tree_with_library_def tree_without_library_def)
  note r1 = run_only_verifies [of super_run_skip tree_with_library tree_with_library, OF a]
  note r2 = run_only_verifies [of super_run_skip tree_without_library tree_without_library, OF b]
  show ?thesis
    using a r1 [THEN conjunct2, THEN conjunct1] r2 [THEN conjunct2, THEN conjunct1] p q s
    by simp
qed

text \<open>
  C2: when \<^verbatim>\<open>intel_seed/librdseed.so\<close> does not exist, \<^verbatim>\<open>run\<close> prints the warning
  and returns normally, with nothing else changed. Whether \<^verbatim>\<open>run\<close> raises is decided
  by the inherited \<^verbatim>\<open>build_py.run\<close> alone, so the outcome of the build is the same
  with and without the library.
\<close>

theorem run_missing_library_warns:
  assumes "super_run w = Inr w'"
    and "\<not> os_path_exists w' library_path"
  shows "run super_run w =
           Inr (w'\<lparr>stdout := stdout w' @
                  ''Warning: intel_seed/librdseed.so not found. Make sure to compile it manually.''
                  @ [CHR 0x0A]\<rparr>) \<and>
         (\<forall>v. isl (run super_run v) \<longleftrightarrow> isl (super_run v))"
proof
  show "run super_run w =
           Inr (w'\<lparr>stdout := stdout w' @
                  ''Warning: intel_seed/librdseed.so not found. Make sure to compile it manually.''
                  @ [CHR 0x0A]\<rparr>)"
    using assms by (simp add: run_Inr library_path_eq)
  show "\<forall>v. isl (run super_run v) \<longleftrightarrow> isl (super_run v)"
    by (simp add: run_def split: sum.split)
qed

theorem run_missing_library_warns_witness:
  "\<not> os_path_exists tree_without_library library_path \<and>
   run super_run_skip tree_without_library =
     Inr (tree_without_library\<lparr>stdout :=
            ''Warning: intel_seed/librdseed.so not found. Make sure to compile it manually.''
            @ [CHR 0x0A]\<rparr>) \<and>
   \<not> isl (run super_run_skip tree_without_library) \<and>
   \<not> isl (run super_run_skip tree_with_library)"
proof -
  have b: "super_run_skip tree_without_library = Inr tree_without_library"
    by (simp add: super_run_skip_def)
  have q: "\<not> os_path_exists tree_without_library library_path"
    by (simp add: library_path_eq os_path_exists_def os_path_join_def tree_without_library_def)
  show ?thesis
    using run_missing_library_warns
        [of super_run_skip tree_without_library tree_without_library] b q
    by (simp add: super_run_skip_def tree_without_library_def)
qed

text \<open>
  C3: the metadata the setup call declares: the name \<^verbatim>\<open>intel-seed\<close>, the version
  \<^verbatim>\<open>1.0.0\<close>, \<^verbatim>\<open>librdseed.so\<close> as the package data of \<^verbatim>\<open>intel_seed\<close>,
  \<^verbatim>\<open>python_requires\<close> \<^verbatim>\<open>>=3.8\<close>, no runtime dependency, and \<^verbatim>\<open>CustomBuildPy\<close> as
  the \<^verbatim>\<open>build_py\<close> command, whatever packages are found.
\<close>

theorem setup_call_metadata:
  "name (setup_call ps) = ''intel-seed'' \<and>
   version (setup_call ps) = ''1.0.0'' \<and>
   package_data (setup_call ps) = [(''intel_seed'', [''librdseed.so''])] \<and>
   map_of (package_data (setup_call ps)) ''intel_seed'' = Some [''librdseed.so''] \<and>
   python_requires (setup_call ps) = ''>=3.8'' \<and>
   install_requires (setup_call ps) = [] \<and>
   cmdclass (setup_call ps) = [(''build_py'', CustomBuildPy)] \<and>
   map_of (cmdclass (setup_call ps)) ''build_py'' = Some CustomBuildPy"
  by (simp add: setup_call_def)

text \<open>
  C9: the verification in \<^verbatim>\<open>run\<close> reads the file system and does not write it. When
  \<^verbatim>\<open>run\<close> returns, the inherited \<^verbatim>\<open>build_py.run\<close> has returned some environment, and
  \<^verbatim>\<open>run\<close> hands back that environment with standard output extended and nothing else
  changed: the same paths exist (no file created, none deleted), the same bytes are
  stored at every path (no file modified), and the working directory and the processes
  are the same. A library that was absent then is absent afterwards.
\<close>

theorem run_leaves_files:
  assumes "run super_run w = Inr w2"
  shows "\<exists>w1. super_run w = Inr w1 \<and>
              files w2 = files w1 \<and> contents w2 = contents w1 \<and>
              cwd w2 = cwd w1 \<and> spawned w2 = spawned w1 \<and>
              w2 = w1\<lparr>stdout := stdout w2\<rparr> \<and>
              (\<forall>p. os_path_exists w2 p \<longleftrightarrow> os_path_exists w1 p) \<and>
              (\<not> os_path_exists w1 library_path \<longrightarrow> \<not> os_path_exists w2 library_path)"
proof (cases "super_run w")
  case (Inl e)
  with assms show ?thesis by (simp add: run_Inl)
next
  case (Inr w1)
  from run_Inr [of super_run w w1] Inr assms
  have e: "w2 = w1\<lparr>stdout := stdout w2\<rparr>"
    by auto
  have f: "files w2 = files w1" "contents w2 = contents w1" "cwd w2 = cwd w1"
    "spawned w2 = spawned w1"
    by (subst e, simp)+
  from f have "\<forall>p. os_path_exists w2 p \<longleftrightarrow> os_path_exists w1 p"
    by (simp add: os_path_exists_def)
  with Inr e f show ?thesis by blast
qed

theorem run_leaves_files_witness:
  "\<exists>w1 w2. super_run_copy tree_without_library = Inr w1 \<and>
         run super_run_copy tree_without_library = Inr w2 \<and>
         ''/home/dev/IntelSeed/build/lib/intel_seed/__init__.py'' \<notin> files tree_without_library \<and>
         ''/home/dev/IntelSeed/build/lib/intel_seed/__init__.py'' \<in> files w1 \<and>
         files w2 = files w1 \<and> contents w2 = contents w1 \<and>
         w2 = w1\<lparr>stdout := stdout w2\<rparr> \<and>
         \<not> os_path_exists w1 library_path \<and>
         \<not> os_path_exists w2 library_path"
proof -
  define w1 where "w1 = tree_without_library
     \<lparr>files := insert ''/home/dev/IntelSeed/build/lib/intel_seed/__init__.py''
                 (files tree_without_library),
      contents := (contents tree_without_library)
        (''/home/dev/IntelSeed/build/lib/intel_seed/__init__.py'' :=
           contents tree_without_library ''/home/dev/IntelSeed/intel_seed/__init__.py'')\<rparr>"
  have b: "super_run_copy tree_without_library = Inr w1"
    by (simp add: w1_def super_run_copy_def os_path_join_def tree_without_library_def)
  have c: "''/home/dev/IntelSeed/build/lib/intel_seed/__init__.py'' \<notin> files tree_without_library"
    by (simp add: tree_without_library_def)
  have d: "''/home/dev/IntelSeed/build/lib/intel_seed/__init__.py'' \<in> files w1"
    by (simp add: w1_def)
  have q: "\<not> os_path_exists w1 library_path"
    by (simp add: w1_def library_path_eq os_path_exists_def os_path_join_def
        tree_without_library_def)
  obtain w2 where r: "run super_run_copy tree_without_library = Inr w2"
    using run_Inr [of super_run_copy tree_without_library w1, OF b] by blast
  from run_leaves_files [of super_run_copy tree_without_library w2, OF r]
  obtain w1' where t: "super_run_copy tree_without_library = Inr w1'"
      "files w2 = files w1'" "contents w2 = contents w1'" "w2 = w1'\<lparr>stdout := stdout w2\<rparr>"
      "\<not> os_path_exists w1' library_path \<longrightarrow> \<not> os_path_exists w2 library_path"
    by blast
  from t(1) b have e: "w1' = w1" by simp
  from t(2-5) q have u: "files w2 = files w1" "contents w2 = contents w1"
      "w2 = w1\<lparr>stdout := stdout w2\<rparr>" "\<not> os_path_exists w2 library_path"
    unfolding e by blast+
  from b r c d u q show ?thesis by blast
qed

text \<open>
  C10: \<^verbatim>\<open>run\<close> is a function of the environment, and what it prints is decided by
  one fact only: whether \<^verbatim>\<open>intel_seed/librdseed.so\<close>, resolved against the current
  working directory, exists. Two runs that agree on that fact print the same text. The
  same files seen from another working directory can give the other message.
\<close>

theorem run_message_determined:
  assumes "super_run1 wa = Inr w1"
    and "super_run2 wb = Inr w2"
    and "os_path_exists w1 library_path \<longleftrightarrow> os_path_exists w2 library_path"
  shows "(\<exists>m. run super_run1 wa = Inr (w1\<lparr>stdout := stdout w1 @ m\<rparr>) \<and>
              run super_run2 wb = Inr (w2\<lparr>stdout := stdout w2 @ m\<rparr>)) \<and>
         (os_path_exists w1 library_path \<longleftrightarrow>
            os_path_join (cwd w1) ''intel_seed/librdseed.so'' \<in> files w1) \<and>
         (\<exists>d m1 m2. m1 \<noteq> m2 \<and>
            run super_run_skip tree_with_library =
              Inr (tree_with_library\<lparr>stdout := stdout tree_with_library @ m1\<rparr>) \<and>
            run super_run_skip (tree_with_library\<lparr>cwd := d\<rparr>) =
              Inr (tree_with_library\<lparr>cwd := d, stdout := stdout tree_with_library @ m2\<rparr>))"
proof (intro conjI)
  show "\<exists>m. run super_run1 wa = Inr (w1\<lparr>stdout := stdout w1 @ m\<rparr>) \<and>
              run super_run2 wb = Inr (w2\<lparr>stdout := stdout w2 @ m\<rparr>)"
  proof -
    let ?m = "(if os_path_exists w1 ''intel_seed/librdseed.so''
               then ''Found compiled library at intel_seed/librdseed.so''
               else ''Warning: intel_seed/librdseed.so not found. Make sure to compile it manually.'')
              @ [CHR 0x0A]"
    have e: "os_path_exists w2 ''intel_seed/librdseed.so'' \<longleftrightarrow>
             os_path_exists w1 ''intel_seed/librdseed.so''"
      using assms(3) unfolding library_path_eq by (rule sym)
    have a: "run super_run1 wa = Inr (w1\<lparr>stdout := stdout w1 @ ?m\<rparr>)"
      by (rule run_Inr [of super_run1 wa w1, OF assms(1)])
    have b: "run super_run2 wb = Inr (w2\<lparr>stdout := stdout w2 @ ?m\<rparr>)"
      using run_Inr [of super_run2 wb w2, OF assms(2)] unfolding e .
    show ?thesis
      by (rule exI [where x = ?m]) (rule conjI [OF a b])
  qed
  show "os_path_exists w1 library_path \<longleftrightarrow>
            os_path_join (cwd w1) ''intel_seed/librdseed.so'' \<in> files w1"
    by (simp add: os_path_exists_def library_path_eq)
  have a: "super_run_skip tree_with_library = Inr tree_with_library"
    and b: "super_run_skip (tree_with_library\<lparr>cwd := ''/home/dev''\<rparr>) =
              Inr (tree_with_library\<lparr>cwd := ''/home/dev''\<rparr>)"
    by (simp_all add: super_run_skip_def)
  have p: "os_path_exists tree_with_library ''intel_seed/librdseed.so''"
    by (simp add: os_path_exists_def os_path_join_def tree_with_library_def)
  have q: "\<not> os_path_exists (tree_with_library\<lparr>cwd := ''/home/dev''\<rparr>)
               ''intel_seed/librdseed.so''"
    by (simp add: os_path_exists_def os_path_join_def tree_with_library_def)
  have r1: "run super_run_skip tree_with_library =
          Inr (tree_with_library\<lparr>stdout := stdout tree_with_library @
                 ''Found compiled library at intel_seed/librdseed.so'' @ [CHR 0x0A]\<rparr>)"
    using run_Inr [of super_run_skip tree_with_library tree_with_library] a p by simp
  have r2: "run super_run_skip (tree_with_library\<lparr>cwd := ''/home/dev''\<rparr>) =
          Inr (tree_with_library\<lparr>cwd := ''/home/dev'', stdout := stdout tree_with_library @
                 ''Warning: intel_seed/librdseed.so not found. Make sure to compile it manually.''
                 @ [CHR 0x0A]\<rparr>)"
    using run_Inr [of super_run_skip "tree_with_library\<lparr>cwd := ''/home/dev''\<rparr>"
        "tree_with_library\<lparr>cwd := ''/home/dev''\<rparr>"] b q by simp
  have ne: "''Found compiled library at intel_seed/librdseed.so'' @ [CHR 0x0A] \<noteq>
      ''Warning: intel_seed/librdseed.so not found. Make sure to compile it manually.''
        @ [CHR 0x0A]"
    by simp
  show "\<exists>d m1 m2. m1 \<noteq> m2 \<and>
            run super_run_skip tree_with_library =
              Inr (tree_with_library\<lparr>stdout := stdout tree_with_library @ m1\<rparr>) \<and>
            run super_run_skip (tree_with_library\<lparr>cwd := d\<rparr>) =
              Inr (tree_with_library\<lparr>cwd := d, stdout := stdout tree_with_library @ m2\<rparr>)"
    by (rule exI [where x = "''/home/dev''"],
        rule exI [where x = "''Found compiled library at intel_seed/librdseed.so'' @ [CHR 0x0A]"],
        rule exI [where x =
          "''Warning: intel_seed/librdseed.so not found. Make sure to compile it manually.''
             @ [CHR 0x0A]"],
        intro conjI, rule ne, rule r1, rule r2)
qed

theorem run_message_determined_witness:
  "\<exists>m. run super_run_skip tree_without_library =
          Inr (tree_without_library\<lparr>stdout := stdout tree_without_library @ m\<rparr>) \<and>
        run super_run_skip (tree_with_library\<lparr>cwd := ''/home/dev''\<rparr>) =
          Inr (tree_with_library\<lparr>cwd := ''/home/dev'',
                 stdout := stdout (tree_with_library\<lparr>cwd := ''/home/dev''\<rparr>) @ m\<rparr>)"
proof -
  have a: "super_run_skip tree_without_library = Inr tree_without_library"
    and b: "super_run_skip (tree_with_library\<lparr>cwd := ''/home/dev''\<rparr>) =
              Inr (tree_with_library\<lparr>cwd := ''/home/dev''\<rparr>)"
    by (simp_all add: super_run_skip_def)
  have q: "os_path_exists tree_without_library library_path \<longleftrightarrow>
           os_path_exists (tree_with_library\<lparr>cwd := ''/home/dev''\<rparr>) library_path"
    by (simp add: library_path_eq os_path_exists_def os_path_join_def
        tree_with_library_def tree_without_library_def)
  show ?thesis
    by (rule run_message_determined [of super_run_skip tree_without_library tree_without_library
          super_run_skip "tree_with_library\<lparr>cwd := ''/home/dev''\<rparr>"
          "tree_with_library\<lparr>cwd := ''/home/dev''\<rparr>", OF a b q, THEN conjunct1])
qed

section \<open>Properties of the retry loop\<close>

text \<open>Each invocation adds one outcome: \<open>issue k\<close> lists exactly \<open>k\<close> of them.\<close>

lemma length_issue: "length (issue k instr hw) = k"
  by (induction k arbitrary: hw) (simp_all split: prod.split)

text \<open>The loop never issues more attempts than its bound.\<close>

lemma retry_attempts_le: "retry n instr hw = (r, k, hw') \<Longrightarrow> k \<le> n"
proof (induction n arbitrary: hw r k hw')
  case 0
  then show ?case by simp
next
  case (Suc n)
  obtain ok v hw1 where i: "instr hw = ((ok, v), hw1)"
    by (metis surj_pair)
  show ?case
  proof (cases ok)
    case True
    with Suc.prems i show ?thesis by simp
  next
    case False
    obtain r1 k1 hw2 where r: "retry n instr hw1 = (r1, k1, hw2)"
      by (metis surj_pair)
    from Suc.IH [OF r] have "k1 \<le> n" .
    with Suc.prems i False r show ?thesis by auto
  qed
qed

text \<open>
  The hardware state the loop leaves is the state after as many invocations as the
  attempts it counts: no invocation goes uncounted, and no attempt is counted without an
  invocation.
\<close>

lemma retry_state: "retry n instr hw = (r, k, hw') \<Longrightarrow> hw' = hw_after k instr hw"
proof (induction n arbitrary: hw r k hw')
  case 0
  then show ?case by simp
next
  case (Suc n)
  obtain ok v hw1 where i: "instr hw = ((ok, v), hw1)"
    by (metis surj_pair)
  show ?case
  proof (cases ok)
    case True
    with Suc.prems i show ?thesis by auto
  next
    case False
    obtain r1 k1 hw2 where r: "retry n instr hw1 = (r1, k1, hw2)"
      by (metis surj_pair)
    from Suc.IH [OF r] have "hw2 = hw_after k1 instr hw1" .
    with Suc.prems i False r show ?thesis by auto
  qed
qed

text \<open>
  A word comes back only from an attempt that reported success, and every attempt before
  it reported failure.
\<close>

lemma retry_Some:
  "retry n instr hw = (Some v, k, hw') \<Longrightarrow>
   \<exists>fs. issue k instr hw = fs @ [(True, v)] \<and> (\<forall>out\<in>set fs. \<not> fst out)"
proof (induction n arbitrary: hw k hw')
  case 0
  then show ?case by simp
next
  case (Suc n)
  obtain ok u hw1 where i: "instr hw = ((ok, u), hw1)"
    by (metis surj_pair)
  show ?case
  proof (cases ok)
    case True
    with Suc.prems i have "k = 1" "u = v" by simp_all
    with i True have "issue k instr hw = [] @ [(True, v)]" by simp
    then show ?thesis by fastforce
  next
    case False
    obtain r1 k1 hw2 where r: "retry n instr hw1 = (r1, k1, hw2)"
      by (metis surj_pair)
    with Suc.prems i False have e: "r1 = Some v" "k = Suc k1" by simp_all
    from Suc.IH [of hw1 k1 hw2] r e obtain fs where
      fs: "issue k1 instr hw1 = fs @ [(True, v)]" "\<forall>out\<in>set fs. \<not> fst out"
      by auto
    from i e fs False have "issue k instr hw = ((False, u) # fs) @ [(True, v)]"
      by simp
    moreover from fs False have "\<forall>out\<in>set ((False, u) # fs). \<not> fst out" by simp
    ultimately show ?thesis by blast
  qed
qed

text \<open>No word comes back only after the whole bound has been spent on failures.\<close>

lemma retry_None:
  "retry n instr hw = (None, k, hw') \<Longrightarrow> k = n \<and> (\<forall>out\<in>set (issue n instr hw). \<not> fst out)"
proof (induction n arbitrary: hw k hw')
  case 0
  then show ?case by simp
next
  case (Suc n)
  obtain ok u hw1 where i: "instr hw = ((ok, u), hw1)"
    by (metis surj_pair)
  obtain r1 k1 hw2 where r: "retry n instr hw1 = (r1, k1, hw2)"
    by (metis surj_pair)
  from Suc.prems i r have f: "\<not> ok" "r1 = None" "k = Suc k1"
    by (auto split: if_splits)
  from Suc.IH [of hw1 k1 hw2] r f have "k1 = n \<and> (\<forall>out\<in>set (issue n instr hw1). \<not> fst out)"
    by simp
  with i f show ?case by simp
qed

text \<open>An instruction that fails in every state exhausts the bound exactly.\<close>

lemma retry_all_fail:
  "\<forall>s. \<not> fst (fst (instr s)) \<Longrightarrow> \<exists>hw'. retry n instr hw = (None, n, hw')"
proof (induction n arbitrary: hw)
  case 0
  then show ?case by simp
next
  case (Suc n)
  obtain ok u hw1 where i: "instr hw = ((ok, u), hw1)"
    by (metis surj_pair)
  with Suc.prems have f: "\<not> ok" by (metis fst_conv)
  from Suc.IH [OF Suc.prems, of hw1] obtain hw2 where "retry n instr hw1 = (None, n, hw2)" ..
  with i f show ?case by simp
qed

text \<open>The loop stops at the first success within the bound.\<close>

lemma retry_first_success:
  "issue (Suc j) instr hw = fs @ [(True, v)] \<Longrightarrow> \<forall>out\<in>set fs. \<not> fst out \<Longrightarrow> j < n \<Longrightarrow>
   \<exists>hw'. retry n instr hw = (Some v, Suc j, hw')"
proof (induction n arbitrary: hw j fs)
  case 0
  then show ?case by simp
next
  case (Suc n)
  obtain ok u hw1 where i: "instr hw = ((ok, u), hw1)"
    by (metis surj_pair)
  from Suc.prems(1) i have c: "(ok, u) # issue j instr hw1 = fs @ [(True, v)]"
    by simp
  show ?case
  proof (cases fs)
    case Nil
    with c have "ok" "u = v" by simp_all
    moreover from Nil c have "issue j instr hw1 = []" by simp
    then have "j = 0" using length_issue [of j instr hw1] by simp
    ultimately show ?thesis using i by simp
  next
    case (Cons f fs')
    with c have t: "f = (ok, u)" "issue j instr hw1 = fs' @ [(True, v)]"
      by simp_all
    from t(2) length_issue [of j instr hw1] obtain j' where j: "j = Suc j'"
      by (cases j) simp_all
    from Cons Suc.prems(2) t(1) have f: "\<not> ok" "\<forall>out\<in>set fs'. \<not> fst out" by auto
    from Suc.prems(3) j have l: "j' < n" by simp
    from t(2) j have t': "issue (Suc j') instr hw1 = fs' @ [(True, v)]" by simp
    from Suc.IH [OF t' f(2) l] obtain hw2 where "retry n instr hw1 = (Some v, Suc j', hw2)" ..
    with i f j show ?thesis by simp
  qed
qed

section \<open>Properties of the draw operations\<close>

text \<open>
  A draw that succeeds carries the word its retry loop returned, at its own width.
\<close>

lemma draw16_Success:
  "draw16 n i hw = (Success rw, k, hw') \<Longrightarrow> \<exists>v. rw = Word16 v \<and> retry n i hw = (Some v, k, hw')"
  by (auto simp: draw16_def split: prod.splits option.splits)

lemma draw32_Success:
  "draw32 n i hw = (Success rw, k, hw') \<Longrightarrow> \<exists>v. rw = Word32 v \<and> retry n i hw = (Some v, k, hw')"
  by (auto simp: draw32_def split: prod.splits option.splits)

lemma draw64_Success:
  "draw64 n i hw = (Success rw, k, hw') \<Longrightarrow> \<exists>v. rw = Word64 v \<and> retry n i hw = (Some v, k, hw')"
  by (auto simp: draw64_def split: prod.splits option.splits)

text \<open>
  Every draw returns a result, after no more attempts than the bound.
\<close>

lemma draw16_attempts: "\<exists>r k hw'. draw16 n i hw = (r, k, hw') \<and> k \<le> n"
proof -
  obtain r k hw' where e: "retry n i hw = (r, k, hw')" by (metis prod_cases3)
  from retry_attempts_le [OF e] e show ?thesis
    by (cases r) (simp_all add: draw16_def)
qed

lemma draw32_attempts: "\<exists>r k hw'. draw32 n i hw = (r, k, hw') \<and> k \<le> n"
proof -
  obtain r k hw' where e: "retry n i hw = (r, k, hw')" by (metis prod_cases3)
  from retry_attempts_le [OF e] e show ?thesis
    by (cases r) (simp_all add: draw32_def)
qed

lemma draw64_attempts: "\<exists>r k hw'. draw64 n i hw = (r, k, hw') \<and> k \<le> n"
proof -
  obtain r k hw' where e: "retry n i hw = (r, k, hw')" by (metis prod_cases3)
  from retry_attempts_le [OF e] e show ?thesis
    by (cases r) (simp_all add: draw64_def)
qed

text \<open>
  On an instruction that fails in every state, a draw is exhausted after exactly the bound.
\<close>

lemma draw16_all_fail:
  assumes "\<forall>s. \<not> fst (fst (i s))"
  shows "\<exists>hw'. draw16 n i hw = (Exhausted, n, hw')"
proof -
  from retry_all_fail [OF assms, of n hw]
  obtain hw' where "retry n i hw = (None, n, hw')" ..
  then have "draw16 n i hw = (Exhausted, n, hw')" by (simp add: draw16_def)
  then show ?thesis ..
qed

lemma draw32_all_fail:
  assumes "\<forall>s. \<not> fst (fst (i s))"
  shows "\<exists>hw'. draw32 n i hw = (Exhausted, n, hw')"
proof -
  from retry_all_fail [OF assms, of n hw]
  obtain hw' where "retry n i hw = (None, n, hw')" ..
  then have "draw32 n i hw = (Exhausted, n, hw')" by (simp add: draw32_def)
  then show ?thesis ..
qed

lemma draw64_all_fail:
  assumes "\<forall>s. \<not> fst (fst (i s))"
  shows "\<exists>hw'. draw64 n i hw = (Exhausted, n, hw')"
proof -
  from retry_all_fail [OF assms, of n hw]
  obtain hw' where "retry n i hw = (None, n, hw')" ..
  then have "draw64 n i hw = (Exhausted, n, hw')" by (simp add: draw64_def)
  then show ?thesis ..
qed

text \<open>
  C4: when the instruction always reports failure, \<^verbatim>\<open>draw64\<close> returns Exhausted after
  exactly the configured retry bound of attempts, not fewer and not more: it counts as
  many attempts as the bound, and the hardware is left in the state that follows exactly
  that many invocations of the instruction.
\<close>

theorem draw64_exhausted_after_bound:
  assumes "\<forall>s. \<not> fst (fst (rdseed_qword s))"
  shows "draw64 bound rdseed_qword hw =
           (Exhausted, bound, hw_after bound rdseed_qword hw)"
proof -
  from retry_all_fail [OF assms, of bound hw]
  obtain hw' where r: "retry bound rdseed_qword hw = (None, bound, hw')" ..
  from retry_state [OF r] have "hw' = hw_after bound rdseed_qword hw" .
  with r show ?thesis
    by (simp add: draw64_def)
qed

theorem draw64_exhausted_after_bound_witness:
  "(\<forall>s. \<not> fst (fst ((always_fails :: (nat, 64 word) instruction) s))) \<and>
   draw64 10 always_fails (0::nat) = (Exhausted, 10, 10) \<and>
   draw64 0 always_fails (7::nat) = (Exhausted, 0, 7)"
proof -
  have h: "\<forall>s. \<not> fst (fst ((always_fails :: (nat, 64 word) instruction) s))"
    by (simp add: always_fails_def)
  have a: "hw_after 10 (always_fails :: (nat, 64 word) instruction) 0 = 10"
    by (simp add: eval_nat_numeral always_fails_def)
  have b: "hw_after 0 (always_fails :: (nat, 64 word) instruction) 7 = 7"
    by simp
  from draw64_exhausted_after_bound [OF h, of 10 0] a
  have "draw64 10 always_fails (0::nat) = (Exhausted, 10, 10)" by simp
  moreover from draw64_exhausted_after_bound [OF h, of 0 7] b
  have "draw64 0 always_fails (7::nat) = (Exhausted, 0, 7)" by simp
  ultimately show ?thesis using h by blast
qed

text \<open>
  C5: a draw returns a RandomWord only if the instruction reported success for that draw.
  The word of a successful \<^verbatim>\<open>draw16\<close>, \<^verbatim>\<open>draw32\<close> or \<^verbatim>\<open>draw64\<close> is the word
  delivered by the last attempt the draw itself issued, that attempt reported success, and
  every attempt of the draw before it reported failure: nothing is cached and no bits of
  an earlier draw are handed out.
\<close>

theorem draw_success_from_own_attempt:
  "(draw16 n rdseed_word hw = (Success rw, k, hw') \<longrightarrow>
      (\<exists>v fs. rw = Word16 v \<and> issue k rdseed_word hw = fs @ [(True, v)] \<and>
              (\<forall>out\<in>set fs. \<not> fst out))) \<and>
   (draw32 n rdseed_dword hw = (Success rw, k, hw') \<longrightarrow>
      (\<exists>v fs. rw = Word32 v \<and> issue k rdseed_dword hw = fs @ [(True, v)] \<and>
              (\<forall>out\<in>set fs. \<not> fst out))) \<and>
   (draw64 n rdseed_qword hw = (Success rw, k, hw') \<longrightarrow>
      (\<exists>v fs. rw = Word64 v \<and> issue k rdseed_qword hw = fs @ [(True, v)] \<and>
              (\<forall>out\<in>set fs. \<not> fst out)))"
proof (intro conjI impI)
  assume "draw16 n rdseed_word hw = (Success rw, k, hw')"
  from draw16_Success [OF this] obtain v where
    v: "rw = Word16 v" "retry n rdseed_word hw = (Some v, k, hw')" by blast
  from retry_Some [OF v(2)] v(1)
  show "\<exists>v fs. rw = Word16 v \<and> issue k rdseed_word hw = fs @ [(True, v)] \<and>
              (\<forall>out\<in>set fs. \<not> fst out)" by blast
next
  assume "draw32 n rdseed_dword hw = (Success rw, k, hw')"
  from draw32_Success [OF this] obtain v where
    v: "rw = Word32 v" "retry n rdseed_dword hw = (Some v, k, hw')" by blast
  from retry_Some [OF v(2)] v(1)
  show "\<exists>v fs. rw = Word32 v \<and> issue k rdseed_dword hw = fs @ [(True, v)] \<and>
              (\<forall>out\<in>set fs. \<not> fst out)" by blast
next
  assume "draw64 n rdseed_qword hw = (Success rw, k, hw')"
  from draw64_Success [OF this] obtain v where
    v: "rw = Word64 v" "retry n rdseed_qword hw = (Some v, k, hw')" by blast
  from retry_Some [OF v(2)] v(1)
  show "\<exists>v fs. rw = Word64 v \<and> issue k rdseed_qword hw = fs @ [(True, v)] \<and>
              (\<forall>out\<in>set fs. \<not> fst out)" by blast
qed

theorem draw_success_from_own_attempt_witness:
  "draw16 10 succeeds_on_third (0::nat) = (Success (Word16 3), 3, 3) \<and>
   draw32 10 succeeds_on_third (0::nat) = (Success (Word32 3), 3, 3) \<and>
   draw64 10 succeeds_on_third (0::nat) = (Success (Word64 3), 3, 3) \<and>
   (\<exists>fs. issue 3 (succeeds_on_third :: (nat, 16 word) instruction) 0 = fs @ [(True, 3)] \<and>
         (\<forall>out\<in>set fs. \<not> fst out)) \<and>
   (\<exists>fs. issue 3 (succeeds_on_third :: (nat, 32 word) instruction) 0 = fs @ [(True, 3)] \<and>
         (\<forall>out\<in>set fs. \<not> fst out)) \<and>
   (\<exists>fs. issue 3 (succeeds_on_third :: (nat, 64 word) instruction) 0 = fs @ [(True, 3)] \<and>
         (\<forall>out\<in>set fs. \<not> fst out))"
proof -
  have e16: "draw16 10 succeeds_on_third (0::nat) = (Success (Word16 3), 3, 3)"
    by (simp add: draw16_def eval_nat_numeral succeeds_on_third_def)
  have e32: "draw32 10 succeeds_on_third (0::nat) = (Success (Word32 3), 3, 3)"
    by (simp add: draw32_def eval_nat_numeral succeeds_on_third_def)
  have e64: "draw64 10 succeeds_on_third (0::nat) = (Success (Word64 3), 3, 3)"
    by (simp add: draw64_def eval_nat_numeral succeeds_on_third_def)
  from draw_success_from_own_attempt [where n = 10 and hw = "0::nat" and k = 3 and hw' = 3
      and rw = "Word16 3" and rdseed_word = succeeds_on_third, THEN conjunct1, THEN mp, OF e16]
  have a16: "\<exists>fs. issue 3 (succeeds_on_third :: (nat, 16 word) instruction) 0 = fs @ [(True, 3)] \<and>
         (\<forall>out\<in>set fs. \<not> fst out)"
    by auto
  from draw_success_from_own_attempt [where n = 10 and hw = "0::nat" and k = 3 and hw' = 3
      and rw = "Word32 3" and rdseed_dword = succeeds_on_third,
      THEN conjunct2, THEN conjunct1, THEN mp, OF e32]
  have a32: "\<exists>fs. issue 3 (succeeds_on_third :: (nat, 32 word) instruction) 0 = fs @ [(True, 3)] \<and>
         (\<forall>out\<in>set fs. \<not> fst out)"
    by auto
  from draw_success_from_own_attempt [where n = 10 and hw = "0::nat" and k = 3 and hw' = 3
      and rw = "Word64 3" and rdseed_qword = succeeds_on_third,
      THEN conjunct2, THEN conjunct2, THEN mp, OF e64]
  have a64: "\<exists>fs. issue 3 (succeeds_on_third :: (nat, 64 word) instruction) 0 = fs @ [(True, 3)] \<and>
         (\<forall>out\<in>set fs. \<not> fst out)"
    by auto
  from e16 e32 e64 a16 a32 a64 show ?thesis by blast
qed

text \<open>
  C6: the value of a successful draw at width W (16, 32 or 64) fits exactly in W bits.
  The word returned has the width of the draw, and the integer it hands to the caller is
  the unsigned reading of the word the successful attempt delivered: it lies in the range
  from 0 up to, and not including, the W-th power of 2 also when the top bit is set (no
  sign extension), and reading it back at width W gives every bit the instruction
  delivered (no truncation).
\<close>

theorem draw_success_fits_width:
  "(draw16 n rdseed_word hw = (Success rw, k, hw') \<longrightarrow>
      (\<exists>v fs. issue k rdseed_word hw = fs @ [(True, v)] \<and>
              bit_width rw = 16 \<and> word_value rw = uint v \<and>
              0 \<le> word_value rw \<and> word_value rw < 2 ^ 16 \<and>
              word_of_int (word_value rw) = v)) \<and>
   (draw32 n rdseed_dword hw = (Success rw, k, hw') \<longrightarrow>
      (\<exists>v fs. issue k rdseed_dword hw = fs @ [(True, v)] \<and>
              bit_width rw = 32 \<and> word_value rw = uint v \<and>
              0 \<le> word_value rw \<and> word_value rw < 2 ^ 32 \<and>
              word_of_int (word_value rw) = v)) \<and>
   (draw64 n rdseed_qword hw = (Success rw, k, hw') \<longrightarrow>
      (\<exists>v fs. issue k rdseed_qword hw = fs @ [(True, v)] \<and>
              bit_width rw = 64 \<and> word_value rw = uint v \<and>
              0 \<le> word_value rw \<and> word_value rw < 2 ^ 64 \<and>
              word_of_int (word_value rw) = v))"
proof (intro conjI impI)
  assume "draw16 n rdseed_word hw = (Success rw, k, hw')"
  from draw16_Success [OF this] obtain v where
    v: "rw = Word16 v" "retry n rdseed_word hw = (Some v, k, hw')" by blast
  from retry_Some [OF v(2)] obtain fs where fs: "issue k rdseed_word hw = fs @ [(True, v)]"
    by blast
  from unsigned_less [of v, where ?'a = int] have "uint v < 2 ^ 16" by simp
  with v(1) fs
  show "\<exists>v fs. issue k rdseed_word hw = fs @ [(True, v)] \<and>
              bit_width rw = 16 \<and> word_value rw = uint v \<and>
              0 \<le> word_value rw \<and> word_value rw < 2 ^ 16 \<and>
              word_of_int (word_value rw) = v"
    by auto
next
  assume "draw32 n rdseed_dword hw = (Success rw, k, hw')"
  from draw32_Success [OF this] obtain v where
    v: "rw = Word32 v" "retry n rdseed_dword hw = (Some v, k, hw')" by blast
  from retry_Some [OF v(2)] obtain fs where fs: "issue k rdseed_dword hw = fs @ [(True, v)]"
    by blast
  from unsigned_less [of v, where ?'a = int] have "uint v < 2 ^ 32" by simp
  with v(1) fs
  show "\<exists>v fs. issue k rdseed_dword hw = fs @ [(True, v)] \<and>
              bit_width rw = 32 \<and> word_value rw = uint v \<and>
              0 \<le> word_value rw \<and> word_value rw < 2 ^ 32 \<and>
              word_of_int (word_value rw) = v"
    by auto
next
  assume "draw64 n rdseed_qword hw = (Success rw, k, hw')"
  from draw64_Success [OF this] obtain v where
    v: "rw = Word64 v" "retry n rdseed_qword hw = (Some v, k, hw')" by blast
  from retry_Some [OF v(2)] obtain fs where fs: "issue k rdseed_qword hw = fs @ [(True, v)]"
    by blast
  from unsigned_less [of v, where ?'a = int] have "uint v < 2 ^ 64" by simp
  with v(1) fs
  show "\<exists>v fs. issue k rdseed_qword hw = fs @ [(True, v)] \<and>
              bit_width rw = 64 \<and> word_value rw = uint v \<and>
              0 \<le> word_value rw \<and> word_value rw < 2 ^ 64 \<and>
              word_of_int (word_value rw) = v"
    by auto
qed

theorem draw_success_fits_width_witness:
  "draw16 10 delivers_all_ones (0::nat) = (Success (Word16 (- 1)), 1, 1) \<and>
   draw32 10 delivers_all_ones (0::nat) = (Success (Word32 (- 1)), 1, 1) \<and>
   draw64 10 delivers_all_ones (0::nat) = (Success (Word64 (- 1)), 1, 1) \<and>
   (bit_width (Word16 (- 1)) = 16 \<and> word_value (Word16 (- 1)) = 65535 \<and>
      word_value (Word16 (- 1)) < 2 ^ 16) \<and>
   (bit_width (Word32 (- 1)) = 32 \<and> word_value (Word32 (- 1)) = 4294967295 \<and>
      word_value (Word32 (- 1)) < 2 ^ 32) \<and>
   (bit_width (Word64 (- 1)) = 64 \<and> word_value (Word64 (- 1)) = 18446744073709551615 \<and>
      word_value (Word64 (- 1)) < 2 ^ 64)"
proof -
  have e16: "draw16 10 delivers_all_ones (0::nat) = (Success (Word16 (- 1)), 1, 1)"
    by (simp add: draw16_def eval_nat_numeral delivers_all_ones_def)
  have e32: "draw32 10 delivers_all_ones (0::nat) = (Success (Word32 (- 1)), 1, 1)"
    by (simp add: draw32_def eval_nat_numeral delivers_all_ones_def)
  have e64: "draw64 10 delivers_all_ones (0::nat) = (Success (Word64 (- 1)), 1, 1)"
    by (simp add: draw64_def eval_nat_numeral delivers_all_ones_def)
  have i16: "issue 1 (delivers_all_ones :: (nat, 16 word) instruction) 0 = [(True, - 1)]"
    and i32: "issue 1 (delivers_all_ones :: (nat, 32 word) instruction) 0 = [(True, - 1)]"
    and i64: "issue 1 (delivers_all_ones :: (nat, 64 word) instruction) 0 = [(True, - 1)]"
    by (simp_all add: delivers_all_ones_def)
  have u16: "uint (- 1 :: 16 word) = 65535"
    and u32: "uint (- 1 :: 32 word) = 4294967295"
    and u64: "uint (- 1 :: 64 word) = 18446744073709551615"
    by (simp_all add: unsigned_minus_1_eq_mask mask_eq_exp_minus_1)
  from draw_success_fits_width [where n = 10 and hw = "0::nat" and k = 1 and hw' = 1
      and rw = "Word16 (- 1)" and rdseed_word = delivers_all_ones,
      THEN conjunct1, THEN mp, OF e16] i16 u16
  have a16: "bit_width (Word16 (- 1)) = 16 \<and> word_value (Word16 (- 1)) = 65535 \<and>
      word_value (Word16 (- 1)) < 2 ^ 16"
    by auto
  from draw_success_fits_width [where n = 10 and hw = "0::nat" and k = 1 and hw' = 1
      and rw = "Word32 (- 1)" and rdseed_dword = delivers_all_ones,
      THEN conjunct2, THEN conjunct1, THEN mp, OF e32] i32 u32
  have a32: "bit_width (Word32 (- 1)) = 32 \<and> word_value (Word32 (- 1)) = 4294967295 \<and>
      word_value (Word32 (- 1)) < 2 ^ 32"
    by auto
  from draw_success_fits_width [where n = 10 and hw = "0::nat" and k = 1 and hw' = 1
      and rw = "Word64 (- 1)" and rdseed_qword = delivers_all_ones,
      THEN conjunct2, THEN conjunct2, THEN mp, OF e64] i64 u64
  have a64: "bit_width (Word64 (- 1)) = 64 \<and> word_value (Word64 (- 1)) = 18446744073709551615 \<and>
      word_value (Word64 (- 1)) < 2 ^ 64"
    by auto
  from e16 e32 e64 a16 a32 a64 show ?thesis by blast
qed

text \<open>
  C7: every draw returns, whatever the instruction does: the draw functions are total,
  they issue at most the bound of attempts, and on an instruction that fails at every
  attempt (unsupported hardware) the result is Exhausted.
\<close>

theorem draws_return_within_bound:
  "(\<exists>r k hw'. draw16 n rdseed_word hw = (r, k, hw') \<and> k \<le> n) \<and>
   (\<exists>r k hw'. draw32 n rdseed_dword hw = (r, k, hw') \<and> k \<le> n) \<and>
   (\<exists>r k hw'. draw64 n rdseed_qword hw = (r, k, hw') \<and> k \<le> n) \<and>
   ((\<forall>s. \<not> fst (fst (rdseed_word s))) \<longrightarrow> (\<exists>hw'. draw16 n rdseed_word hw = (Exhausted, n, hw'))) \<and>
   ((\<forall>s. \<not> fst (fst (rdseed_dword s))) \<longrightarrow> (\<exists>hw'. draw32 n rdseed_dword hw = (Exhausted, n, hw'))) \<and>
   ((\<forall>s. \<not> fst (fst (rdseed_qword s))) \<longrightarrow> (\<exists>hw'. draw64 n rdseed_qword hw = (Exhausted, n, hw')))"
  by (intro conjI impI draw16_attempts draw32_attempts draw64_attempts
      draw16_all_fail draw32_all_fail draw64_all_fail)

theorem draws_return_within_bound_witness:
  "(\<forall>s. \<not> fst (fst ((always_fails :: (nat, 16 word) instruction) s))) \<and>
   (\<forall>s. \<not> fst (fst ((always_fails :: (nat, 32 word) instruction) s))) \<and>
   (\<forall>s. \<not> fst (fst ((always_fails :: (nat, 64 word) instruction) s))) \<and>
   (\<exists>hw'. draw16 10 always_fails (0::nat) = (Exhausted, 10, hw')) \<and>
   (\<exists>hw'. draw32 10 always_fails (0::nat) = (Exhausted, 10, hw')) \<and>
   (\<exists>hw'. draw64 10 always_fails (0::nat) = (Exhausted, 10, hw'))"
proof -
  have h16: "\<forall>s. \<not> fst (fst ((always_fails :: (nat, 16 word) instruction) s))"
    and h32: "\<forall>s. \<not> fst (fst ((always_fails :: (nat, 32 word) instruction) s))"
    and h64: "\<forall>s. \<not> fst (fst ((always_fails :: (nat, 64 word) instruction) s))"
    by (simp_all add: always_fails_def)
  note t = draws_return_within_bound [where n = 10 and hw = "0::nat"
      and rdseed_word = always_fails and rdseed_dword = always_fails and rdseed_qword = always_fails]
  from t have "\<exists>hw'. draw16 10 always_fails (0::nat) = (Exhausted, 10, hw')"
    using h16 by blast
  moreover from t have "\<exists>hw'. draw32 10 always_fails (0::nat) = (Exhausted, 10, hw')"
    using h32 by blast
  moreover from t have "\<exists>hw'. draw64 10 always_fails (0::nat) = (Exhausted, 10, hw')"
    using h64 by blast
  ultimately show ?thesis using h16 h32 h64 by blast
qed

text \<open>
  C8: when the instruction fails on the first two attempts and succeeds on the third of
  a budget of 10, \<^verbatim>\<open>draw32\<close> returns Success with the value of that third attempt and
  has issued exactly 3 attempts: it counts 3, and the hardware is left in the state that
  follows exactly 3 invocations of the instruction, so no fourth one was issued.
\<close>

theorem draw32_success_on_third_attempt:
  assumes "issue 3 rdseed_dword hw = [(False, a), (False, b), (True, v)]"
  shows "draw32 10 rdseed_dword hw = (Success (Word32 v), 3, hw_after 3 rdseed_dword hw)"
proof -
  from assms have i: "issue (Suc 2) rdseed_dword hw = [(False, a), (False, b)] @ [(True, v)]"
    by (simp add: numeral_3_eq_3 numeral_2_eq_2)
  have f: "\<forall>out\<in>set [(False, a), (False, b)]. \<not> fst out" by simp
  have "(2::nat) < 10" by simp
  from retry_first_success [OF i f this]
  obtain hw' where r: "retry 10 rdseed_dword hw = (Some v, Suc 2, hw')" ..
  from retry_state [OF r] have "hw' = hw_after (Suc 2) rdseed_dword hw" .
  with r show ?thesis
    by (simp add: draw32_def numeral_3_eq_3 numeral_2_eq_2)
qed

theorem draw32_success_on_third_attempt_witness:
  "issue 3 (succeeds_on_third :: (nat, 32 word) instruction) 0 =
     [(False, 1), (False, 2), (True, 3)] \<and>
   draw32 10 succeeds_on_third (0::nat) = (Success (Word32 3), 3, 3)"
proof
  show i: "issue 3 (succeeds_on_third :: (nat, 32 word) instruction) 0 =
     [(False, 1), (False, 2), (True, 3)]"
    by (simp add: eval_nat_numeral succeeds_on_third_def)
  have a: "hw_after 3 (succeeds_on_third :: (nat, 32 word) instruction) 0 = 3"
    by (simp add: eval_nat_numeral succeeds_on_third_def)
  from draw32_success_on_third_attempt [OF i] a
  show "draw32 10 succeeds_on_third (0::nat) = (Success (Word32 3), 3, 3)"
    by simp
qed

end
